theory Spec2Isabelle
  imports Main "HOL-Library.Sublist"
begin

section \<open>The voice page: a shallow embedding of \<open>frontend/src/pages/Voice.tsx\<close>\<close>

text \<open>
  The component \<open>Voice\<close> keeps four pieces of React state (\<open>isListening\<close>,
  \<open>transcript\<close>, \<open>error\<close>, \<open>isSupported\<close>) and two refs (\<open>recognitionRef\<close>,
  \<open>finalTranscriptRef\<close>). Its handlers run one at a time on the browser's event loop,
  so each handler is a function from the state before to the state after. The two
  collaborators the handlers call, the speech recognition object and \<open>fetch\<close>, are
  recorded as logs of the calls made: \<open>calls\<close> and \<open>requests\<close>.

  A state setter is modelled as an assignment: the component renders between two events,
  so the value a handler sets is the value the next handler reads.

  Strings are \<open>char list\<close>; a \<open>char\<close> stands for one code unit below 256.
\<close>

subsection \<open>Strings: \<open>String.prototype.trim\<close> and number formatting\<close>

text \<open>
  \<open>trim\<close> removes white space and line terminators from both ends. Of the code units
  below 256 these are TAB, LF, VT, FF, CR, SPACE and NBSP.
\<close>

definition is_whitespace :: "char \<Rightarrow> bool" where
  "is_whitespace c =
     (c \<in> set [CHR 0x09, CHR 0x0A, CHR 0x0B, CHR 0x0C, CHR 0x0D, CHR 0x20, CHR 0xA0])"

definition trim :: "string \<Rightarrow> string" where
  "trim s = rev (dropWhile is_whitespace (rev (dropWhile is_whitespace s)))"

text \<open>The decimal digits of a number, as a template literal \<open>${n}\<close> prints them.\<close>

definition digit_char :: "nat \<Rightarrow> char" where
  "digit_char d = ''0123456789'' ! d"

fun string_of_nat :: "nat \<Rightarrow> string" where
  "string_of_nat n =
     (if n < 10 then [digit_char n] else string_of_nat (n div 10) @ [digit_char (n mod 10)])"

declare string_of_nat.simps [simp del]

subsection \<open>Collaborators\<close>

text \<open>
  What the mount effect finds: no \<open>window\<close> at all, a window without
  \<open>SpeechRecognition\<close> and \<open>webkitSpeechRecognition\<close>, or a window with a constructor.
\<close>

datatype environment = NoWindow | NoConstructor | HasConstructor

text \<open>Calls made on the recognition object through \<open>recognitionRef.current\<close>.\<close>

datatype cap_call = CallStart | CallStop

text \<open>
  What \<open>recognition.start()\<close> does when \<open>toggleListening\<close> calls it: it returns, it throws
  a \<open>DOMException\<close> named \<open>InvalidStateError\<close> (recognition already started), or it throws
  anything else.
\<close>

datatype start_outcome = Started | InvalidStateError | OtherStartError

text \<open>
  One \<open>fetch\<close> call: its URL, its method, its headers, and the object handed to
  \<open>JSON.stringify\<close> for the body, as a list of its fields.
\<close>

record request =
  url :: string
  http_method :: string
  headers :: "(string \<times> string) list"
  body :: "(string \<times> string) list"

text \<open>
  How an awaited \<open>fetch\<close> settles: with a response of some status, rejected with an
  \<open>Error\<close> carrying a message, or rejected with a value that is not an \<open>Error\<close>.
\<close>

datatype fetch_outcome = Response nat | RejectedError string | RejectedOther

text \<open>\<open>response.ok\<close> of the Fetch API: the status is in the range 200 to 299.\<close>

definition response_ok :: "nat \<Rightarrow> bool" where
  "response_ok status = (200 \<le> status \<and> status \<le> 299)"

text \<open>
  One entry of \<open>event.results\<close>: its \<open>isFinal\<close> flag and \<open>result[0].transcript\<close>, the
  transcript of its first alternative.
\<close>

record speech_result =
  isFinal :: bool
  alt0_transcript :: string

record result_event =
  resultIndex :: nat
  results :: "speech_result list"

subsection \<open>Component state\<close>

record voice =
  isListening :: bool
  transcript :: string
  error :: "string option"
  isSupported :: bool
  recognitionRef :: bool
  finalTranscriptRef :: string
  calls :: "cap_call list"
  requests :: "request list"

text \<open>
  The state of the first render: the \<open>useState\<close> and \<open>useRef\<close> initial values;
  \<open>recognitionRef\<close> is \<open>True\<close> when the ref holds the recognition object and \<open>False\<close>
  when it holds \<open>null\<close>.
\<close>

definition initial :: voice where
  "initial = \<lparr>isListening = False, transcript = [], error = None, isSupported = True,
              recognitionRef = False, finalTranscriptRef = [], calls = [], requests = []\<rparr>"

text \<open>The mount effect (lines 14 to 33 and 95).\<close>

definition mount :: "environment \<Rightarrow> voice \<Rightarrow> voice" where
  "mount env s =
     (case env of
        NoWindow \<Rightarrow> s
      | NoConstructor \<Rightarrow> s\<lparr>isSupported := False\<rparr>
      | HasConstructor \<Rightarrow> s\<lparr>recognitionRef := True\<rparr>)"

subsection \<open>\<open>sendTranscript\<close>\<close>

text \<open>
  \<open>sendTranscript\<close> runs in two parts. Up to its \<open>await\<close> it issues the \<open>fetch\<close>; when the
  fetch settles, the rest runs: a response that is not \<open>ok\<close> throws inside the \<open>try\<close>, and
  the \<open>catch\<close> block sets \<open>error\<close>.
\<close>

definition query_request :: "string \<Rightarrow> request" where
  "query_request txt =
     \<lparr>url = ''http://localhost:8000/query'', http_method = ''POST'',
      headers = [(''Content-Type'', ''application/json'')],
      body = [(''input'', txt)]\<rparr>"

definition sendTranscript :: "string \<Rightarrow> voice \<Rightarrow> voice" where
  "sendTranscript txt s = s\<lparr>requests := requests s @ [query_request txt]\<rparr>"

definition failure_message :: "fetch_outcome \<Rightarrow> string option" where
  "failure_message out =
     (case out of
        Response status \<Rightarrow>
          (if \<not> response_ok status
           then Some (''Request failed with status '' @ string_of_nat status)
           else None)
      | RejectedError msg \<Rightarrow> Some msg
      | RejectedOther \<Rightarrow> Some ''An unknown network error occurred.'')"

definition sendTranscript_settled :: "fetch_outcome \<Rightarrow> voice \<Rightarrow> voice" where
  "sendTranscript_settled out s =
     (case failure_message out of
        None \<Rightarrow> s
      | Some message \<Rightarrow> s\<lparr>error := Some (''Failed to send transcript: '' @ message)\<rparr>)"

subsection \<open>\<open>recognition.onresult\<close>\<close>

text \<open>
  The \<open>for\<close> loop of lines 59 to 68, on the pair of \<open>finalTranscriptRef.current\<close> and the
  local \<open>interimTranscript\<close>.
\<close>

function result_loop :: "speech_result list \<Rightarrow> nat \<Rightarrow> string \<times> string \<Rightarrow> string \<times> string" where
  "result_loop rs i (fin, interim) =
     (if i < length rs
      then (if isFinal (rs ! i)
            then result_loop rs (i + 1) (fin @ alt0_transcript (rs ! i), interim)
            else result_loop rs (i + 1) (fin, interim @ alt0_transcript (rs ! i)))
      else (fin, interim))"
  by pat_completeness auto
termination
  by (relation "measure (\<lambda>(rs, i, acc). length rs - i)") auto

declare result_loop.simps [simp del]

definition onresult :: "result_event \<Rightarrow> voice \<Rightarrow> voice" where
  "onresult event s =
     (case result_loop (results event) (resultIndex event) (finalTranscriptRef s, []) of
        (fin, interimTranscript) \<Rightarrow>
          s\<lparr>finalTranscriptRef := fin, transcript := trim (fin @ interimTranscript),
            error := None\<rparr>)"

subsection \<open>\<open>recognition.onerror\<close> and \<open>recognition.onend\<close>\<close>

definition onerror :: "string \<Rightarrow> voice \<Rightarrow> voice" where
  "onerror code s =
     (let message =
            (if code = ''not-allowed''
             then ''Microphone access denied. Please allow microphone permissions.''
             else if code = ''no-speech''
             then ''No speech detected. Please try again.''
             else ''Speech recognition error: '' @ code)
      in s\<lparr>error := Some message, isListening := False\<rparr>)"

definition onend :: "voice \<Rightarrow> voice" where
  "onend s =
     (let s1 = s\<lparr>isListening := False\<rparr>;
          textToSend = trim (finalTranscriptRef s1)
      in if textToSend \<noteq> [] then sendTranscript textToSend s1 else s1)"

subsection \<open>\<open>toggleListening\<close>\<close>

definition toggleListening :: "start_outcome \<Rightarrow> voice \<Rightarrow> voice" where
  "toggleListening out s =
     (if \<not> recognitionRef s
      then s\<lparr>error := Some ''Speech recognition is not supported in this browser.''\<rparr>
      else if isListening s
      then s\<lparr>calls := calls s @ [CallStop], isListening := False\<rparr>
      else
        (let s1 = s\<lparr>transcript := [], error := None, finalTranscriptRef := [],
                    calls := calls s @ [CallStart]\<rparr>
         in case out of
              Started \<Rightarrow> s1\<lparr>isListening := True\<rparr>
            | InvalidStateError \<Rightarrow>
                s1\<lparr>error := Some ''Speech recognition is already running. Please wait a moment and try again.'',
                   isListening := False\<rparr>
            | OtherStartError \<Rightarrow>
                s1\<lparr>error := Some ''Unable to start speech recognition. Please try again.'',
                   isListening := False\<rparr>))"

text \<open>
  The three statements of \<open>toggleListening\<close> one by one. Each of the first two either
  returns from the handler (\<open>Inl\<close>, with the state it leaves) or passes control on to the
  next statement (\<open>Inr\<close>): the guard of lines 107 to 110, the stop statement of lines 112
  to 116, and the \<open>try\<close> statement of lines 118 to 131.
\<close>

definition unsupported_guard :: "voice \<Rightarrow> voice + voice" where
  "unsupported_guard s =
     (if \<not> recognitionRef s
      then Inl (s\<lparr>error := Some ''Speech recognition is not supported in this browser.''\<rparr>)
      else Inr s)"

definition stop_statement :: "voice \<Rightarrow> voice + voice" where
  "stop_statement s =
     (if isListening s
      then Inl (s\<lparr>calls := calls s @ [CallStop], isListening := False\<rparr>)
      else Inr s)"

definition start_statement :: "start_outcome \<Rightarrow> voice \<Rightarrow> voice" where
  "start_statement out s =
     (let s1 = s\<lparr>transcript := [], error := None, finalTranscriptRef := [],
                 calls := calls s @ [CallStart]\<rparr>
      in case out of
           Started \<Rightarrow> s1\<lparr>isListening := True\<rparr>
         | InvalidStateError \<Rightarrow>
             s1\<lparr>error := Some ''Speech recognition is already running. Please wait a moment and try again.'',
                isListening := False\<rparr>
         | OtherStartError \<Rightarrow>
             s1\<lparr>error := Some ''Unable to start speech recognition. Please try again.'',
                isListening := False\<rparr>)"

subsection \<open>Everything that can happen to the component\<close>

datatype action =
    Toggle start_outcome
  | Result result_event
  | RecognitionError string
  | End
  | Settled fetch_outcome

fun step :: "voice \<Rightarrow> action \<Rightarrow> voice" where
  "step s (Toggle out) = toggleListening out s"
| "step s (Result event) = onresult event s"
| "step s (RecognitionError code) = onerror code s"
| "step s End = onend s"
| "step s (Settled out) = sendTranscript_settled out s"

definition run :: "voice \<Rightarrow> action list \<Rightarrow> voice" where
  "run s as = foldl step s as"

text \<open>A run of result events only.\<close>

definition process :: "voice \<Rightarrow> result_event list \<Rightarrow> voice" where
  "process s evs = run s (map Result evs)"

text \<open>
  The controller is listening before every action of the list: the actions all fall
  inside one listening period.
\<close>

fun stays_listening :: "voice \<Rightarrow> action list \<Rightarrow> bool" where
  "stays_listening s [] = True"
| "stays_listening s (a # as) = (isListening s \<and> stays_listening (step s a) as)"

subsection \<open>Vocabulary of the specification\<close>

text \<open>
  The part of an event that the loop visits, and the text of its final and of its
  non-final fragments, each in index order.
\<close>

definition slice :: "result_event \<Rightarrow> speech_result list" where
  "slice event = drop (resultIndex event) (results event)"

definition finals :: "speech_result list \<Rightarrow> string" where
  "finals rs = concat (map alt0_transcript (filter isFinal rs))"

definition interims :: "speech_result list \<Rightarrow> string" where
  "interims rs = concat (map alt0_transcript (filter (\<lambda>r. \<not> isFinal r) rs))"

text \<open>
  The kinds of \<open>ErrorInfo\<close> of the specification (with \<open>StartFailure\<close> for its generic
  start failure), and the message the component shows for each kind.
\<close>

datatype ErrorInfo =
    PermissionDenied
  | NoSpeechDetected
  | AlreadyRunning
  | Unsupported
  | StartFailure
  | RecognitionFailure string
  | DispatchFailure string

fun message_of :: "ErrorInfo \<Rightarrow> string" where
  "message_of PermissionDenied = ''Microphone access denied. Please allow microphone permissions.''"
| "message_of NoSpeechDetected = ''No speech detected. Please try again.''"
| "message_of AlreadyRunning =
     ''Speech recognition is already running. Please wait a moment and try again.''"
| "message_of Unsupported = ''Speech recognition is not supported in this browser.''"
| "message_of StartFailure = ''Unable to start speech recognition. Please try again.''"
| "message_of (RecognitionFailure code) = ''Speech recognition error: '' @ code"
| "message_of (DispatchFailure message) = ''Failed to send transcript: '' @ message"

text \<open>The classification of raw error codes, in the words of the specification.\<close>

definition classify_spec :: "string \<Rightarrow> ErrorInfo" where
  "classify_spec code =
     (if code = ''not-allowed'' then PermissionDenied
      else if code = ''no-speech'' then NoSpeechDetected
      else RecognitionFailure code)"

text \<open>
  The merge of fragments in the words of the specification, on the pair of
  \<open>finalTranscript\<close> and \<open>interimTranscript\<close>: a final fragment is appended to the first, a
  non-final fragment overwrites the second; the displayed transcript is the trimmed
  concatenation of the two.
\<close>

fun spec_fragment :: "string \<times> string \<Rightarrow> speech_result \<Rightarrow> string \<times> string" where
  "spec_fragment (finalT, interimT) r =
     (if isFinal r then (finalT @ alt0_transcript r, interimT)
      else (finalT, alt0_transcript r))"

definition spec_event :: "string \<times> string \<Rightarrow> result_event \<Rightarrow> string \<times> string" where
  "spec_event st event = foldl spec_fragment st (slice event)"

definition spec_displayed :: "result_event list \<Rightarrow> string" where
  "spec_displayed evs =
     (case foldl spec_event ([], []) evs of (finalT, interimT) \<Rightarrow> trim (finalT @ interimT))"

text \<open>
  A capability that reports its offset correctly. It keeps one cumulative list of
  results for the session; \<open>prev\<close> is that list as of the previous event. An event
  leaves everything before its \<open>resultIndex\<close> as it was, and what it replaces from the
  index on was not final yet.
\<close>

fun offsets_correct :: "speech_result list \<Rightarrow> result_event list \<Rightarrow> bool" where
  "offsets_correct prev [] = True"
| "offsets_correct prev (e # es) =
     (take (resultIndex e) (results e) = take (resultIndex e) prev \<and>
      list_all (\<lambda>r. \<not> isFinal r) (drop (resultIndex e) prev) \<and>
      offsets_correct (results e) es)"

text \<open>The cumulative list after a run of events.\<close>

definition cumulative :: "speech_result list \<Rightarrow> result_event list \<Rightarrow> speech_result list" where
  "cumulative prev evs = (if evs = [] then prev else results (last evs))"

subsection \<open>Example inputs\<close>

definition ready :: voice where
  "ready = mount HasConstructor initial"

definition unsupported :: voice where
  "unsupported = mount NoConstructor initial"

definition two_interims :: result_event where
  "two_interims =
     \<lparr>resultIndex = 0,
      results = [\<lparr>isFinal = False, alt0_transcript = ''a''\<rparr>,
                 \<lparr>isFinal = False, alt0_transcript = ''b''\<rparr>]\<rparr>"

definition hello_interim :: result_event where
  "hello_interim =
     \<lparr>resultIndex = 0, results = [\<lparr>isFinal = False, alt0_transcript = ''hello''\<rparr>]\<rparr>"

definition hello_final :: result_event where
  "hello_final =
     \<lparr>resultIndex = 0, results = [\<lparr>isFinal = True, alt0_transcript = ''hello world''\<rparr>]\<rparr>"

definition again_interim :: result_event where
  "again_interim =
     \<lparr>resultIndex = 1,
      results = [\<lparr>isFinal = True, alt0_transcript = ''hello world''\<rparr>,
                 \<lparr>isFinal = False, alt0_transcript = '' again''\<rparr>]\<rparr>"

definition again_final :: result_event where
  "again_final =
     \<lparr>resultIndex = 1,
      results = [\<lparr>isFinal = True, alt0_transcript = ''hello world''\<rparr>,
                 \<lparr>isFinal = True, alt0_transcript = '' again''\<rparr>]\<rparr>"

text \<open>A session that was started and has heard a final fragment.\<close>

definition listening_session :: voice where
  "listening_session = run ready [Toggle Started, Result hello_final]"

text \<open>A session that was started, heard a final fragment and was stopped by the user.\<close>

definition stopped_session :: voice where
  "stopped_session = run ready [Toggle Started, Result hello_final, Toggle Started]"

text \<open>
  The same session after its end notification, with its dispatch still pending, and a
  new session started on top of it.
\<close>

definition restarted_session :: voice where
  "restarted_session = run stopped_session [End, Toggle Started]"

section \<open>Properties\<close>

subsection \<open>Evaluation and unfolding\<close>

lemmas example_defs =
  ready_def unsupported_def mount_def initial_def two_interims_def hello_interim_def
  hello_final_def again_interim_def again_final_def listening_session_def
  stopped_session_def restarted_session_def

lemmas handler_defs =
  toggleListening_def onerror_def onend_def sendTranscript_def sendTranscript_settled_def
  failure_message_def response_ok_def query_request_def

lemmas text_defs = slice_def finals_def interims_def trim_def is_whitespace_def

lemma finals_simps [simp]:
  "finals [] = []"
  "finals (r # rs) = (if isFinal r then alt0_transcript r @ finals rs else finals rs)"
  "finals (xs @ ys) = finals xs @ finals ys"
  by (simp_all add: finals_def)

lemma interims_simps [simp]:
  "interims [] = []"
  "interims (r # rs) = (if isFinal r then interims rs else alt0_transcript r @ interims rs)"
  "interims (xs @ ys) = interims xs @ interims ys"
  by (simp_all add: interims_def)

lemma run_simps [simp]:
  "run s [] = s"
  "run s (a # as) = run (step s a) as"
  "run s (as @ bs) = run (run s as) bs"
  by (simp_all add: run_def)

lemma process_simps [simp]:
  "process s [] = s"
  "process s (e # es) = process (onresult e s) es"
  "process s (es @ fs) = process (process s es) fs"
  by (simp_all add: process_def)

lemma string_of_nat_500: "string_of_nat 500 = ''500''"
  by (simp add: string_of_nat.simps digit_char_def)

text \<open>Different kinds of error are shown as different messages.\<close>

lemma message_of_inj: "message_of a = message_of b \<Longrightarrow> a = b"
  by (cases a; cases b) simp_all

subsection \<open>The loop of \<open>onresult\<close>\<close>

text \<open>
  The index loop visits the entries from the start index to the end of the list, in
  order: it appends the final ones to the first accumulator and the others to the second.
\<close>

lemma result_loop_drop:
  "result_loop rs i (fin, interim) = (fin @ finals (drop i rs), interim @ interims (drop i rs))"
proof (induction rs i "(fin, interim)" arbitrary: fin interim rule: result_loop.induct)
  case (1 rs i fin interim)
  show ?case
  proof (cases "i < length rs")
    case True
    then have d: "drop i rs = rs ! i # drop (Suc i) rs"
      by (simp add: Cons_nth_drop_Suc)
    show ?thesis
      using True 1 d by (subst result_loop.simps) simp
  next
    case False
    then show ?thesis by (subst result_loop.simps) simp
  qed
qed

lemma onresult_eq:
  "onresult event s =
     s\<lparr>finalTranscriptRef := finalTranscriptRef s @ finals (slice event),
       transcript := trim (finalTranscriptRef s @ finals (slice event) @ interims (slice event)),
       error := None\<rparr>"
  by (simp add: onresult_def result_loop_drop slice_def)

lemma process_final:
  "finalTranscriptRef (process s evs) =
     finalTranscriptRef s @ concat (map (\<lambda>e. finals (slice e)) evs)"
  by (induction evs arbitrary: s) (simp_all add: onresult_eq)

lemma process_transcript:
  "evs \<noteq> [] \<Longrightarrow>
     transcript (process s evs) =
       trim (finalTranscriptRef s @ concat (map (\<lambda>e. finals (slice e)) evs) @
             interims (slice (last evs)))"
proof (induction evs rule: rev_induct)
  case Nil
  then show ?case by simp
next
  case (snoc e es)
  show ?case by (simp add: onresult_eq process_final)
qed

text \<open>
  With a capability that reports its offsets correctly, the accumulated text is the text
  of the final entries of the cumulative list, each once.
\<close>

lemma offsets_final:
  "offsets_correct prev evs \<Longrightarrow> finalTranscriptRef s = pre @ finals prev \<Longrightarrow>
     finalTranscriptRef (process s evs) = pre @ finals (cumulative prev evs)"
proof (induction evs arbitrary: prev s)
  case Nil
  then show ?case by (simp add: cumulative_def)
next
  case (Cons e es)
  let ?i = "resultIndex e"
  from Cons.prems have same: "take ?i (results e) = take ?i prev"
    and open_tail: "list_all (\<lambda>r. \<not> isFinal r) (drop ?i prev)"
    and rest: "offsets_correct (results e) es"
    by simp_all
  have "filter isFinal (drop ?i prev) = []"
    using open_tail by (simp add: list_all_iff filter_empty_conv)
  then have "finals (drop ?i prev) = []"
    by (simp add: finals_def)
  moreover have "finals prev = finals (take ?i prev) @ finals (drop ?i prev)"
    by (simp flip: finals_simps(3))
  ultimately have "finals prev = finals (take ?i (results e))"
    using same by simp
  then have "finalTranscriptRef (onresult e s) =
      pre @ finals (take ?i (results e)) @ finals (drop ?i (results e))"
    using Cons.prems(2) by (simp add: onresult_eq slice_def)
  then have "finalTranscriptRef (onresult e s) = pre @ finals (results e)"
    by (simp flip: finals_simps(3))
  from Cons.IH [OF rest this] show ?case
    by (simp add: cumulative_def)
qed

subsection \<open>Dispatch and the session state\<close>

lemma step_requests: "a \<noteq> End \<Longrightarrow> requests (step s a) = requests s"
  by (cases a)
    (auto simp: toggleListening_def onresult_eq onerror_def sendTranscript_settled_def Let_def
          split: start_outcome.splits option.splits)

lemma run_requests: "End \<notin> set as \<Longrightarrow> requests (run s as) = requests s"
  by (induction as arbitrary: s) (auto simp: step_requests)

lemma onend_requests:
  "requests (onend s) =
     requests s @ (if trim (finalTranscriptRef s) \<noteq> []
                   then [query_request (trim (finalTranscriptRef s))] else [])"
  by (simp add: onend_def sendTranscript_def Let_def)

lemma step_final_prefix:
  "isListening s \<Longrightarrow> prefix (finalTranscriptRef s) (finalTranscriptRef (step s a))"
  by (cases a)
    (auto simp: toggleListening_def onresult_eq onerror_def onend_def sendTranscript_def
                sendTranscript_settled_def Let_def
          split: start_outcome.splits option.splits)

lemma run_final_prefix:
  "stays_listening s as \<Longrightarrow> prefix (finalTranscriptRef s) (finalTranscriptRef (run s as))"
proof (induction as arbitrary: s)
  case Nil
  then show ?case by simp
next
  case (Cons a as)
  then have "prefix (finalTranscriptRef s) (finalTranscriptRef (step s a))"
    and "prefix (finalTranscriptRef (step s a)) (finalTranscriptRef (run (step s a) as))"
    by (simp_all add: step_final_prefix)
  then show ?case by (auto intro: prefix_order.trans)
qed

lemma enter_listening:
  "\<not> isListening s \<Longrightarrow> isListening (step s a) \<Longrightarrow>
     a = Toggle Started \<and> recognitionRef s \<and>
     finalTranscriptRef (step s a) = [] \<and> transcript (step s a) = [] \<and> error (step s a) = None"
  by (cases a)
    (auto simp: toggleListening_def onresult_eq onerror_def onend_def sendTranscript_def
                sendTranscript_settled_def Let_def
          split: start_outcome.splits option.splits if_splits)

lemma stopped_session_eq:
  "stopped_session =
     \<lparr>isListening = False, transcript = ''hello world'', error = None, isSupported = True,
      recognitionRef = True, finalTranscriptRef = ''hello world'',
      calls = [CallStart, CallStop], requests = []\<rparr>"
  by (simp add: example_defs handler_defs onresult_eq text_defs)

lemma restarted_session_eq:
  "restarted_session =
     \<lparr>isListening = True, transcript = [], error = None, isSupported = True,
      recognitionRef = True, finalTranscriptRef = [],
      calls = [CallStart, CallStop, CallStart],
      requests = [query_request ''hello world'']\<rparr>"
  by (simp add: restarted_session_def stopped_session_eq handler_defs text_defs Let_def)

lemma listening_session_eq:
  "listening_session =
     \<lparr>isListening = True, transcript = ''hello world'', error = None, isSupported = True,
      recognitionRef = True, finalTranscriptRef = ''hello world'',
      calls = [CallStart], requests = []\<rparr>"
  by (simp add: example_defs handler_defs onresult_eq text_defs)

lemma toggleListening_statements:
  "toggleListening out s =
     (case unsupported_guard s of
        Inl s' \<Rightarrow> s'
      | Inr s1 \<Rightarrow> (case stop_statement s1 of Inl s' \<Rightarrow> s' | Inr s2 \<Rightarrow> start_statement out s2))"
  by (simp add: toggleListening_def unsupported_guard_def stop_statement_def start_statement_def)

lemma step_listening_has_object:
  "(isListening s \<longrightarrow> recognitionRef s) \<Longrightarrow>
     isListening (step s a) \<longrightarrow> recognitionRef (step s a)"
  by (cases a)
    (auto simp: toggleListening_def onresult_eq onerror_def onend_def sendTranscript_def
                sendTranscript_settled_def Let_def
          split: start_outcome.splits option.splits if_splits)

lemma run_listening_has_object:
  "(isListening s \<longrightarrow> recognitionRef s) \<Longrightarrow>
     isListening (run s as) \<longrightarrow> recognitionRef (run s as)"
proof (induction as arbitrary: s)
  case Nil
  then show ?case by simp
next
  case (Cons a as)
  from Cons.prems have "isListening (step s a) \<longrightarrow> recognitionRef (step s a)"
    by (rule step_listening_has_object)
  from Cons.IH [OF this] show ?case by simp
qed

lemma mounted_listening_has_object:
  "isListening (run (mount env initial) as) \<longrightarrow> recognitionRef (run (mount env initial) as)"
  by (rule run_listening_has_object) (simp add: mount_def initial_def split: environment.splits)

lemma start_attempt_clears:
  "recognitionRef s \<Longrightarrow> \<not> isListening s \<Longrightarrow>
     finalTranscriptRef (toggleListening out s) = [] \<and> transcript (toggleListening out s) = [] \<and>
     isListening (toggleListening out s) = (out = Started) \<and>
     (out = Started \<longrightarrow> error (toggleListening out s) = None)"
  by (cases out) (simp_all add: toggleListening_def)

lemma truncation_is_start_attempt:
  "\<not> prefix (finalTranscriptRef s) (finalTranscriptRef (step s a)) \<Longrightarrow>
     (\<exists>out. a = Toggle out) \<and> recognitionRef s \<and> \<not> isListening s \<and>
     finalTranscriptRef (step s a) = []"
  by (cases a)
    (auto simp: toggleListening_def onresult_eq onerror_def onend_def sendTranscript_def
                sendTranscript_settled_def Let_def
          split: start_outcome.splits option.splits if_splits)

section \<open>The claims\<close>

subsection \<open>C1: the displayed transcript\<close>

text \<open>
  C1, as amended. After every non-empty sequence of recognition events, the displayed
  transcript is the trimmed concatenation of the text accumulated before, of all final
  fragments of the visited slices in arrival order, and of the non-final fragments of the
  most recent event's slice in index order. Within one event non-final fragments are
  appended to one another; the interim text starts empty at every event.
\<close>

theorem C1_displayed_transcript:
  "evs \<noteq> [] \<Longrightarrow>
     transcript (process s evs) =
       trim (finalTranscriptRef s @ concat (map (\<lambda>e. finals (slice e)) evs) @
             interims (slice (last evs)))"
  by (rule process_transcript)

theorem C1_displayed_transcript_witness:
  "[hello_interim, hello_final, again_interim] \<noteq> [] \<and>
   transcript (process (toggleListening Started ready) [hello_interim, hello_final, again_interim]) =
     ''hello world again''"
proof -
  have h: "[hello_interim, hello_final, again_interim] \<noteq> []" by simp
  show ?thesis
    using C1_displayed_transcript [OF h, of "toggleListening Started ready"]
    by (simp add: toggleListening_def example_defs text_defs)
qed

text \<open>
  C1 as stated fails on an event with two non-final fragments: the component shows both,
  where overwriting would leave the second only.
\<close>

theorem C1_counterexample:
  "transcript (process (toggleListening Started ready) [two_interims]) = ''ab'' \<and>
   spec_displayed [two_interims] = ''b'' \<and>
   transcript (process (toggleListening Started ready) [two_interims]) \<noteq>
     spec_displayed [two_interims]"
  by (simp add: onresult_eq toggleListening_def example_defs text_defs
      spec_displayed_def spec_event_def)

subsection \<open>C2: dispatch at the end of a session\<close>

text \<open>
  C2. Nothing but the end notification dispatches. After any actions without an end
  notification, the end notification sends one request, carrying the trimmed
  \<open>finalTranscriptRef\<close>, if that text is not empty, and sends nothing if it is empty: at
  most one dispatch for each end notification, and an empty text is never sent.
\<close>

theorem C2_dispatch_at_session_end:
  "End \<notin> set as \<Longrightarrow>
     requests (step (run s as) End) =
       requests s @ (if trim (finalTranscriptRef (run s as)) \<noteq> []
                     then [query_request (trim (finalTranscriptRef (run s as)))] else [])"
  by (simp add: onend_requests run_requests)

theorem C2_dispatch_at_session_end_witness:
  "End \<notin> set [Toggle Started, Result hello_final, Toggle Started] \<and>
   requests (step (run ready [Toggle Started, Result hello_final, Toggle Started]) End) =
     [query_request ''hello world''] \<and>
   End \<notin> set [Toggle Started, Result hello_interim, RecognitionError ''no-speech''] \<and>
   requests (step (run ready [Toggle Started, Result hello_interim, RecognitionError ''no-speech'']) End) = []"
proof -
  have h1: "End \<notin> set [Toggle Started, Result hello_final, Toggle Started]"
    by simp
  have h2: "End \<notin> set [Toggle Started, Result hello_interim, RecognitionError ''no-speech'']"
    by simp
  show ?thesis
    using C2_dispatch_at_session_end [OF h1, of ready] C2_dispatch_at_session_end [OF h2, of ready]
    by (simp add: example_defs handler_defs onresult_eq text_defs)
qed

subsection \<open>C3: a start that finds the capability active\<close>

text \<open>
  C3, as amended. If \<open>start()\<close> throws \<open>InvalidStateError\<close>, the component shows the
  already-running message and is not listening; the displayed transcript and
  \<open>finalTranscriptRef\<close> have been cleared, since they are reset before \<open>start()\<close> is called.
\<close>

theorem C3_start_already_running:
  "recognitionRef s \<Longrightarrow> \<not> isListening s \<Longrightarrow>
     toggleListening InvalidStateError s =
       s\<lparr>transcript := [], error := Some (message_of AlreadyRunning), finalTranscriptRef := [],
         calls := calls s @ [CallStart], isListening := False\<rparr>"
  by (simp add: toggleListening_def)

theorem C3_start_already_running_witness:
  "recognitionRef stopped_session \<and> \<not> isListening stopped_session \<and>
   toggleListening InvalidStateError stopped_session =
     \<lparr>isListening = False, transcript = [], error = Some (message_of AlreadyRunning),
      isSupported = True, recognitionRef = True, finalTranscriptRef = [],
      calls = [CallStart, CallStop, CallStart], requests = []\<rparr>"
proof -
  have h1: "recognitionRef stopped_session" and h2: "\<not> isListening stopped_session"
    by (simp_all add: stopped_session_eq)
  show ?thesis
    using h1 h2 C3_start_already_running [OF h1 h2] by (simp add: stopped_session_eq)
qed

text \<open>
  C3 as stated fails on a session that was stopped with text on display: the failed
  start reports the error and clears both buffers.
\<close>

theorem C3_counterexample:
  "error (toggleListening InvalidStateError stopped_session) = Some (message_of AlreadyRunning) \<and>
   \<not> isListening (toggleListening InvalidStateError stopped_session) \<and>
   transcript stopped_session = ''hello world'' \<and>
   transcript (toggleListening InvalidStateError stopped_session) = [] \<and>
   transcript (toggleListening InvalidStateError stopped_session) \<noteq> transcript stopped_session \<and>
   finalTranscriptRef stopped_session = ''hello world'' \<and>
   finalTranscriptRef (toggleListening InvalidStateError stopped_session) = [] \<and>
   finalTranscriptRef (toggleListening InvalidStateError stopped_session) \<noteq>
     finalTranscriptRef stopped_session"
  by (simp add: stopped_session_eq toggleListening_def)

subsection \<open>C4: when the final transcript is cleared, and that it grows otherwise\<close>

text \<open>
  C4, as amended. \<open>finalTranscriptRef\<close> is cleared by every start attempt, whether
  \<open>start()\<close> returns or throws: the attempt also clears the displayed transcript, enters
  listening exactly when \<open>start()\<close> returns, and then leaves \<open>error\<close> cleared as well.
  Every action that takes the component from not listening to listening is such a
  successful start, so the fields are reset before the first event of the session.
  Nothing but a start attempt, made while not listening, ever truncates
  \<open>finalTranscriptRef\<close>; through any actions during which the component stays listening its
  earlier value is a prefix of its later value.
\<close>

theorem C4_final_transcript_cleared_then_grows:
  "(recognitionRef s \<and> \<not> isListening s \<longrightarrow>
      finalTranscriptRef (step s (Toggle out)) = [] \<and> transcript (step s (Toggle out)) = [] \<and>
      isListening (step s (Toggle out)) = (out = Started) \<and>
      (out = Started \<longrightarrow> error (step s (Toggle out)) = None)) \<and>
   (\<not> isListening s \<and> isListening (step s a) \<longrightarrow>
      a = Toggle Started \<and> finalTranscriptRef (step s a) = [] \<and> transcript (step s a) = [] \<and>
      error (step s a) = None) \<and>
   (\<not> prefix (finalTranscriptRef s) (finalTranscriptRef (step s a)) \<longrightarrow>
      (\<exists>out. a = Toggle out) \<and> recognitionRef s \<and> \<not> isListening s \<and>
      finalTranscriptRef (step s a) = []) \<and>
   (stays_listening s' as \<longrightarrow> prefix (finalTranscriptRef s') (finalTranscriptRef (run s' as)))"
  using start_attempt_clears [of s out] enter_listening [of s a]
    truncation_is_start_attempt [of s a] run_final_prefix [of s' as]
  by simp

theorem C4_final_transcript_cleared_then_grows_witness:
  "recognitionRef stopped_session \<and> \<not> isListening stopped_session \<and>
   finalTranscriptRef stopped_session = ''hello world'' \<and>
   finalTranscriptRef (step stopped_session (Toggle Started)) = [] \<and>
   isListening (step stopped_session (Toggle Started)) \<and>
   \<not> prefix (finalTranscriptRef stopped_session)
       (finalTranscriptRef (step stopped_session (Toggle Started))) \<and>
   stays_listening listening_session [Result again_interim, Result again_final, Settled (Response 500)] \<and>
   finalTranscriptRef listening_session = ''hello world'' \<and>
   finalTranscriptRef
     (run listening_session [Result again_interim, Result again_final, Settled (Response 500)]) =
     ''hello world again'' \<and>
   prefix (finalTranscriptRef listening_session)
     (finalTranscriptRef
        (run listening_session [Result again_interim, Result again_final, Settled (Response 500)]))"
  using C4_final_transcript_cleared_then_grows [of stopped_session Started "Toggle Started"
      listening_session "[Result again_interim, Result again_final, Settled (Response 500)]"]
  by (simp add: stopped_session_eq listening_session_eq again_interim_def again_final_def
      onresult_eq handler_defs text_defs string_of_nat_500)

text \<open>
  C4 as stated fails on a session that the user has stopped and whose end notification
  has not arrived: a start attempt that throws clears \<open>finalTranscriptRef\<close> although the
  component does not enter listening.
\<close>

theorem C4_counterexample:
  "finalTranscriptRef stopped_session = ''hello world'' \<and>
   \<not> isListening stopped_session \<and>
   \<not> isListening (step stopped_session (Toggle InvalidStateError)) \<and>
   finalTranscriptRef (step stopped_session (Toggle InvalidStateError)) = [] \<and>
   \<not> prefix (finalTranscriptRef stopped_session)
       (finalTranscriptRef (step stopped_session (Toggle InvalidStateError)))"
  by (simp add: stopped_session_eq toggleListening_def)

subsection \<open>C5: recognition errors\<close>

text \<open>
  C5. On a recognition error the component shows the message of the kind that the
  specification assigns to the raw code (\<open>not-allowed\<close> is \<open>PermissionDenied\<close>, \<open>no-speech\<close>
  is \<open>NoSpeechDetected\<close>, any other code is \<open>RecognitionFailure\<close> of that code) and stops
  listening. Nothing else changes: no call is made on the recognition object, so nothing
  is resumed or retried, and nothing is dispatched.
\<close>

theorem C5_recognition_error:
  "onerror code s = s\<lparr>error := Some (message_of (classify_spec code)), isListening := False\<rparr> \<and>
   calls (onerror code s) = calls s \<and> requests (onerror code s) = requests s \<and>
   finalTranscriptRef (onerror code s) = finalTranscriptRef s \<and>
   transcript (onerror code s) = transcript s"
  by (simp add: onerror_def classify_spec_def)

theorem C5_recognition_error_witness:
  "error (onerror ''not-allowed'' (step ready (Toggle Started))) = Some (message_of PermissionDenied) \<and>
   error (onerror ''no-speech'' (step ready (Toggle Started))) = Some (message_of NoSpeechDetected) \<and>
   error (onerror ''network'' (step ready (Toggle Started))) =
     Some (message_of (RecognitionFailure ''network'')) \<and>
   \<not> isListening (onerror ''network'' (step ready (Toggle Started)))"
  using C5_recognition_error [of "''not-allowed''" "step ready (Toggle Started)"]
    C5_recognition_error [of "''no-speech''" "step ready (Toggle Started)"]
    C5_recognition_error [of "''network''" "step ready (Toggle Started)"]
  by (simp add: classify_spec_def)

subsection \<open>C6: the resume index\<close>

text \<open>
  C6. An event changes the state only through its entries from \<open>resultIndex\<close> on, taken
  in index order; the entries before the index are not read. If the capability reports
  its offsets correctly, a session that starts with an empty \<open>finalTranscriptRef\<close> ends up
  with the text of the final entries of the cumulative result list, each exactly once, in
  index order.
\<close>

theorem C6_resume_index:
  "onresult event s =
     s\<lparr>finalTranscriptRef := finalTranscriptRef s @ finals (drop (resultIndex event) (results event)),
       transcript := trim (finalTranscriptRef s @ finals (drop (resultIndex event) (results event)) @
                           interims (drop (resultIndex event) (results event))),
       error := None\<rparr> \<and>
   (offsets_correct [] evs \<and> finalTranscriptRef s = [] \<longrightarrow>
      finalTranscriptRef (process s evs) = finals (cumulative [] evs))"
  using offsets_final [of "[]" evs s "[]"]
  by (simp add: onresult_eq slice_def)

theorem C6_resume_index_witness:
  "offsets_correct [] [hello_interim, hello_final, again_interim] \<and>
   finalTranscriptRef (step ready (Toggle Started)) = [] \<and>
   finalTranscriptRef (process (step ready (Toggle Started)) [hello_interim, hello_final, again_interim]) =
     ''hello world''"
  using C6_resume_index [of again_interim "step ready (Toggle Started)"
      "[hello_interim, hello_final, again_interim]"]
  by (simp add: example_defs handler_defs cumulative_def finals_def)

subsection \<open>C7: a dispatch that settles during the next session\<close>

text \<open>
  C7, as amended. A start does not look at the dispatches made: it does the same with a
  dispatch pending as without. When a pending dispatch settles, it leaves the listening
  flag, the displayed transcript, \<open>finalTranscriptRef\<close>, the support state, the recognition
  object and both logs as they are. It reports a failure by overwriting the one shared
  \<open>error\<close>, also when a new session has started: the new session's \<open>error\<close> does depend on
  the outcome of the pending dispatch.
\<close>

theorem C7_pending_dispatch:
  "isListening (sendTranscript_settled out s) = isListening s \<and>
   transcript (sendTranscript_settled out s) = transcript s \<and>
   finalTranscriptRef (sendTranscript_settled out s) = finalTranscriptRef s \<and>
   isSupported (sendTranscript_settled out s) = isSupported s \<and>
   recognitionRef (sendTranscript_settled out s) = recognitionRef s \<and>
   calls (sendTranscript_settled out s) = calls s \<and>
   requests (sendTranscript_settled out s) = requests s \<and>
   error (sendTranscript_settled out s) =
     (case failure_message out of
        None \<Rightarrow> error s
      | Some message \<Rightarrow> Some (message_of (DispatchFailure message))) \<and>
   toggleListening st (s\<lparr>requests := requests s @ [query_request txt]\<rparr>) =
     (toggleListening st s)\<lparr>requests := requests s @ [query_request txt]\<rparr>"
  by (simp add: sendTranscript_settled_def toggleListening_def Let_def
      split: option.splits start_outcome.splits)

theorem C7_pending_dispatch_witness:
  "isListening (sendTranscript_settled (Response 500) restarted_session) \<and>
   transcript (sendTranscript_settled (Response 500) restarted_session) = [] \<and>
   finalTranscriptRef (sendTranscript_settled (Response 500) restarted_session) = [] \<and>
   error (sendTranscript_settled (Response 500) restarted_session) =
     Some (message_of (DispatchFailure ''Request failed with status 500''))"
  using C7_pending_dispatch [of "Response 500" restarted_session]
  by (simp add: restarted_session_eq failure_message_def response_ok_def string_of_nat_500)

text \<open>
  C7 as stated fails on a session started while the previous dispatch is pending: its
  \<open>error\<close> is empty if the dispatch succeeds and holds the failure if the dispatch fails.
\<close>

theorem C7_counterexample:
  "isListening restarted_session \<and> error restarted_session = None \<and>
   error (sendTranscript_settled (Response 200) restarted_session) = None \<and>
   error (sendTranscript_settled (Response 500) restarted_session) =
     Some ''Failed to send transcript: Request failed with status 500'' \<and>
   error (sendTranscript_settled (Response 500) restarted_session) \<noteq> error restarted_session"
  by (simp add: restarted_session_eq sendTranscript_settled_def failure_message_def response_ok_def
      string_of_nat_500)

subsection \<open>C8: the dispatch contract\<close>



subsection \<open>C9: a stop when the component is not listening\<close>

text \<open>
  C9. The stop request of the component is the stop statement of \<open>toggleListening\<close>, the
  second of its three statements. When the component is not listening, idle or
  unsupported, that statement does nothing: it leaves the state as it is and passes
  control on. The toggle then makes no stop call on the recognition object, dispatches
  nothing, and does what it would do without the stop statement. When the recognition
  object exists and the component is listening, the stop is carried out. A component
  without a recognition object never listens.
\<close>

theorem C9_stop_when_not_listening:
  "toggleListening out s =
     (case unsupported_guard s of
        Inl s' \<Rightarrow> s'
      | Inr s1 \<Rightarrow> (case stop_statement s1 of Inl s' \<Rightarrow> s' | Inr s2 \<Rightarrow> start_statement out s2)) \<and>
   (\<not> isListening s \<longrightarrow> stop_statement s = Inr s) \<and>
   (\<not> isListening s \<or> \<not> recognitionRef s \<longrightarrow>
      calls (toggleListening out s) = calls s @ (if recognitionRef s then [CallStart] else []) \<and>
      requests (toggleListening out s) = requests s \<and>
      toggleListening out s =
        (case unsupported_guard s of Inl s' \<Rightarrow> s' | Inr s1 \<Rightarrow> start_statement out s1)) \<and>
   (recognitionRef s \<and> isListening s \<longrightarrow>
      toggleListening out s = s\<lparr>calls := calls s @ [CallStop], isListening := False\<rparr>) \<and>
   (\<not> recognitionRef (run (mount env initial) as) \<longrightarrow>
      \<not> isListening (run (mount env initial) as))"
  using toggleListening_statements [of out s] mounted_listening_has_object [of env as]
  by (auto simp: toggleListening_def unsupported_guard_def stop_statement_def start_statement_def
      Let_def split: start_outcome.splits)

theorem C9_stop_when_not_listening_witness:
  "\<not> isListening ready \<and> stop_statement ready = Inr ready \<and>
   calls (toggleListening Started ready) = [CallStart] \<and>
   requests (toggleListening Started ready) = [] \<and>
   \<not> recognitionRef unsupported \<and> \<not> isListening unsupported \<and>
   stop_statement unsupported = Inr unsupported \<and>
   calls (toggleListening Started unsupported) = [] \<and>
   requests (toggleListening Started unsupported) = [] \<and>
   recognitionRef listening_session \<and> isListening listening_session \<and>
   calls (toggleListening Started listening_session) = [CallStart, CallStop] \<and>
   \<not> recognitionRef (run (mount NoConstructor initial) [Toggle Started, End]) \<and>
   \<not> isListening (run (mount NoConstructor initial) [Toggle Started, End])"
  using C9_stop_when_not_listening [of Started ready NoConstructor "[Toggle Started, End]"]
    C9_stop_when_not_listening [of Started unsupported NoConstructor "[Toggle Started, End]"]
    C9_stop_when_not_listening [of Started listening_session NoConstructor "[Toggle Started, End]"]
  by (simp add: listening_session_eq ready_def unsupported_def mount_def initial_def
      handler_defs unsupported_guard_def stop_statement_def start_statement_def Let_def)

subsection \<open>C10: an error does not suppress the dispatch\<close>

text \<open>
  C10. If the trimmed \<open>finalTranscriptRef\<close> is not empty when a recognition error arrives,
  the end notification that follows sends one request, a \<open>POST\<close> to the query endpoint
  whose body carries exactly that text.
\<close>

theorem C10_error_then_end_dispatches:
  "trim (finalTranscriptRef s) \<noteq> [] \<Longrightarrow>
     requests (onend (onerror code s)) =
       requests s @
       [\<lparr>url = ''http://localhost:8000/query'', http_method = ''POST'',
         headers = [(''Content-Type'', ''application/json'')],
         body = [(''input'', trim (finalTranscriptRef s))]\<rparr>]"
  by (simp add: onend_requests onerror_def query_request_def)

theorem C10_error_then_end_dispatches_witness:
  "trim (finalTranscriptRef listening_session) \<noteq> [] \<and>
   requests (onend (onerror ''network'' listening_session)) =
     [\<lparr>url = ''http://localhost:8000/query'', http_method = ''POST'',
       headers = [(''Content-Type'', ''application/json'')],
       body = [(''input'', ''hello world'')]\<rparr>]"
proof -
  have h: "trim (finalTranscriptRef listening_session) \<noteq> []"
    by (simp add: listening_session_eq text_defs)
  show ?thesis
    using h C10_error_then_end_dispatches [OF h, of "''network''"]
    by (simp add: listening_session_eq text_defs)
qed


end
